theory Spec2Isabelle
  imports Main
begin

section \<open>The Plugin Server of the gateway (module PluginServer)\<close>

text \<open>
  The class \<open>PluginServer\<close> owns the registry of plugins (a JavaScript \<open>Map\<close> from plugin
  id to \<open>Plugin\<close> object), answers the registration handshake on the shared IPC channel and
  forwards every other envelope to the \<open>Plugin\<close> that owns it.

  The embedding keeps the objects of the source apart from the references to them:
  \<open>Plugin\<close> objects live in a store, and the registry holds references into that store, so
  that "the same instance" is equality of references and a write through a reference is
  seen by every holder of it. Calls into code outside the class (the Add-on Manager, the
  methods of \<open>Plugin\<close>, the socket's \<open>send\<close>) are recorded, in order, in a call log.
\<close>

subsection \<open>Values\<close>

text \<open>
  JavaScript values as far as the class handles them. \<open>Num\<close> stands for the integral numbers
  only (no fractions, no NaN); \<open>Obj\<close> is an object literal with its properties in order.
\<close>

datatype jsval =
    Undefined
  | Null
  | Bool bool
  | Num int
  | Str string
  | Obj "(string \<times> jsval) list"

text \<open>The truth value JavaScript gives a value in \<open>if (v)\<close>.\<close>

fun truthy :: "jsval \<Rightarrow> bool" where
  "truthy Undefined = False"
| "truthy Null = False"
| "truthy (Bool b) = b"
| "truthy (Num n) = (n \<noteq> 0)"
| "truthy (Str s) = (s \<noteq> [])"
| "truthy (Obj ps) = True"

text \<open>
  A plugin id as it arrives at run time: \<open>Some s\<close> is the string \<open>s\<close>, \<open>None\<close> is
  \<open>undefined\<close> (the property \<open>data.pluginId\<close> is missing from the envelope). The registry is a
  \<open>Map\<close>, which accepts \<open>undefined\<close> as a key like any other value.
\<close>

type_synonym plugin_key = "string option"

fun key_val :: "plugin_key \<Rightarrow> jsval" where
  "key_val None = Undefined"
| "key_val (Some s) = Str s"

type_synonym websocket = nat
type_synonym proxy = nat
type_synonym ref = nat

subsection \<open>The modules the server imports\<close>

text \<open>
  A promise, by how it ends: resolved with a value, rejected, or never settled.
  \<open>promise_then\<close> is \<open>p.then(f)\<close> and \<open>promise_catch\<close> is \<open>p.catch(h)\<close>; a callback
  returns a promise, which the result adopts, and works on the variables \<open>c\<close> of the
  closure it was created in.
\<close>

datatype 'a promise = Resolved 'a | Rejected | Pending

fun promise_then ::
  "('a \<Rightarrow> 'c \<Rightarrow> 'b promise \<times> 'c) \<Rightarrow> 'a promise \<times> 'c \<Rightarrow> 'b promise \<times> 'c" where
  "promise_then f (Resolved x, c) = f x c"
| "promise_then f (Rejected, c) = (Rejected, c)"
| "promise_then f (Pending, c) = (Pending, c)"

fun promise_catch ::
  "('c \<Rightarrow> 'a promise \<times> 'c) \<Rightarrow> 'a promise \<times> 'c \<Rightarrow> 'a promise \<times> 'c" where
  "promise_catch h (Resolved x, c) = (Resolved x, c)"
| "promise_catch h (Rejected, c) = h c"
| "promise_catch h (Pending, c) = (Pending, c)"

text \<open>The object \<open>UserProfile\<close> (module \<open>../user-profile\<close>): the directories read by the handshake.\<close>

record user_profile =
  addonsDir :: string
  baseDir :: string
  configDir :: string
  dataDir :: string
  mediaDir :: string
  logDir :: string
  gatewayDir :: string

text \<open>
  What the server takes from other modules, as parameters of the model: the two message
  type constants of \<open>Constants.MessageType\<close> it names, \<open>Settings.getSetting\<close> as the
  promise it returns for a key, \<open>UserProfile\<close>, and \<open>pkg.version\<close>.
\<close>

record modules =
  PLUGIN_REGISTER_REQUEST :: int
  PLUGIN_REGISTER_RESPONSE :: int
  Settings_getSetting :: "string \<Rightarrow> jsval promise"
  UserProfile :: user_profile
  pkg_version :: string

subsection \<open>Envelopes, plugins and the server\<close>

text \<open>
  An inbound envelope \<open>msg\<close>, as it comes off the wire: \<open>msg.messageType\<close> and \<open>msg.data\<close>.
  The parameter is typed \<open>Message\<close>, whose schema gives every envelope a \<open>data\<close> object, but
  nothing checks an envelope against it: \<open>data\<close> is \<open>None\<close> when the envelope has no
  \<open>data\<close> (\<open>undefined\<close> or \<open>null\<close>). Of a \<open>data\<close> object the server reads \<open>pluginId\<close>; the
  other properties are carried along as they are.
\<close>

record message_data =
  data_pluginId :: plugin_key
  data_rest :: "(string \<times> jsval) list"

record message =
  messageType :: int
  data :: "message_data option"

text \<open>
  The one error the class can raise: the \<open>TypeError\<close> of reading a property of \<open>undefined\<close>.
  An operation that can throw ends in \<open>Inr s\<close>, having returned with the server \<open>s\<close>, or in
  \<open>Inl (e, s)\<close>, having thrown \<open>e\<close> with the server as it was at that moment (nothing is
  rolled back, and no caller in the class catches).
\<close>

datatype error = TypeError

fun returns :: "(error \<times> 'a) + 'a \<Rightarrow> bool" where
  "returns (Inr s) = True"
| "returns (Inl x) = False"

fun after :: "(error \<times> 'a) + 'a \<Rightarrow> 'a" where
  "after (Inr s) = s"
| "after (Inl (e, s)) = s"

text \<open>
  The fields of a \<open>Plugin\<close> object that the server reads or writes: \<open>ws\<close>, \<open>exec\<close>,
  \<open>execPath\<close>, and the id the object was constructed with.
\<close>

record plugin =
  pluginId :: plugin_key
  ws :: "websocket option"
  exec :: "string option"
  execPath :: "string option"

text \<open>
  Modelled from the spec: the constructor of \<open>Plugin\<close> (module \<open>./plugin\<close>), called as
  \<open>new Plugin(pluginId, this)\<close>. A new plugin has its id, no channel handle
  ("undefined before" registration completes) and no launch descriptor ("absent for plugins
  that self-register").
\<close>

definition Plugin_new :: "plugin_key \<Rightarrow> plugin" where
  "Plugin_new pluginId_arg = \<lparr>pluginId = pluginId_arg, ws = None, exec = None, execPath = None\<rparr>"

text \<open>
  The calls the server makes into code outside the class. \<open>Plugin_start r p\<close> is the call
  \<open>plugin.start()\<close> on the object at reference \<open>r\<close>, whose fields are \<open>p\<close> when the method
  is entered. \<open>Ws_send w v\<close> is \<open>ws.send(JSON.stringify(v))\<close>.
\<close>

datatype call =
    Manager_addAdapter proxy
  | Manager_addNotifier proxy
  | Manager_addAPIHandler proxy
  | Plugin_onMsg ref message
  | Plugin_start ref plugin
  | Ws_send websocket jsval

text \<open>
  The state of a \<open>PluginServer\<close>: its fields \<open>verbose\<close>, \<open>plugins\<close> and \<open>ipcSocket\<close> (open
  or closed), the store of \<open>Plugin\<close> objects (a reference is an index into it; \<open>new\<close>
  appends), the calls made so far, and what was written to the console.
\<close>

record server =
  verbose :: bool
  plugins :: "plugin_key \<rightharpoonup> ref"
  store :: "plugin list"
  calls :: "call list"
  console :: "message list"
  ipcSocket_open :: bool

definition PluginServer_new :: "bool \<Rightarrow> server" where
  "PluginServer_new verbose_arg =
     \<lparr>verbose = verbose_arg, plugins = Map.empty, store = [], calls = [], console = [],
      ipcSocket_open = True\<rparr>"

text \<open>
  A write to a field of the object behind a reference, \<open>plugin.f = v\<close>. A reference held
  by running code always points into the store; outside it nothing is written.
\<close>

definition assign :: "ref \<Rightarrow> (plugin \<Rightarrow> plugin) \<Rightarrow> server \<Rightarrow> server" where
  "assign r f s =
     (if r < length (store s) then s\<lparr>store := (store s)[r := f (store s ! r)]\<rparr> else s)"

text \<open>Every reference in the registry points to an object of the store.\<close>

definition registry_ok :: "server \<Rightarrow> bool" where
  "registry_ok s = (\<forall>k r. plugins s k = Some r \<longrightarrow> r < length (store s))"

subsection \<open>The registry operations\<close>

definition getPlugin :: "plugin_key \<Rightarrow> server \<Rightarrow> ref option" where
  "getPlugin pluginId_arg s = plugins s pluginId_arg"

definition registerPlugin :: "plugin_key \<Rightarrow> server \<Rightarrow> ref \<times> server" where
  "registerPlugin pluginId_arg s =
     (case plugins s pluginId_arg of
        Some plugin_ref \<Rightarrow> (plugin_ref, s)
      | None \<Rightarrow>
          (let plugin_ref = length (store s)
           in (plugin_ref,
               s\<lparr>store := store s @ [Plugin_new pluginId_arg],
                 plugins := (plugins s)(pluginId_arg \<mapsto> plugin_ref)\<rparr>)))"

definition unregisterPlugin :: "plugin_key \<Rightarrow> server \<Rightarrow> server" where
  "unregisterPlugin pluginId_arg s = s\<lparr>plugins := (plugins s)(pluginId_arg := None)\<rparr>"

definition shutdown :: "server \<Rightarrow> server" where
  "shutdown s = s\<lparr>ipcSocket_open := False\<rparr>"

subsection \<open>Forwarding to the Add-on Manager\<close>

definition addAdapter :: "proxy \<Rightarrow> server \<Rightarrow> server" where
  "addAdapter adapter s = s\<lparr>calls := calls s @ [Manager_addAdapter adapter]\<rparr>"

definition addNotifier :: "proxy \<Rightarrow> server \<Rightarrow> server" where
  "addNotifier notifier s = s\<lparr>calls := calls s @ [Manager_addNotifier notifier]\<rparr>"

definition addAPIHandler :: "proxy \<Rightarrow> server \<Rightarrow> server" where
  "addAPIHandler handler s = s\<lparr>calls := calls s @ [Manager_addAPIHandler handler]\<rparr>"

subsection \<open>The handshake and the dispatch of envelopes\<close>

text \<open>
  The variables of \<open>onMsg\<close> that the callbacks of the handshake share: \<open>language\<close>,
  \<open>units.temperature\<close>, and the calls the callbacks have made.
\<close>

record closure =
  language :: jsval
  units_temperature :: jsval
  sent :: "call list"

text \<open>
  The object literal given to \<open>JSON.stringify\<close> in the last callback, for the object
  \<open>msg.data\<close> of the request and the values of \<open>language\<close> and \<open>units.temperature\<close> at that
  moment.
\<close>

definition register_response ::
  "modules \<Rightarrow> message_data \<Rightarrow> jsval \<Rightarrow> jsval \<Rightarrow> jsval" where
  "register_response env msg_data language_arg temperature_arg =
     Obj [(''messageType'', Num (PLUGIN_REGISTER_RESPONSE env)),
          (''data'', Obj
            [(''pluginId'', key_val (data_pluginId msg_data)),
             (''gatewayVersion'', Str (pkg_version env)),
             (''userProfile'', Obj
               [(''addonsDir'', Str (addonsDir (UserProfile env))),
                (''baseDir'', Str (baseDir (UserProfile env))),
                (''configDir'', Str (configDir (UserProfile env))),
                (''dataDir'', Str (dataDir (UserProfile env))),
                (''mediaDir'', Str (mediaDir (UserProfile env))),
                (''logDir'', Str (logDir (UserProfile env))),
                (''gatewayDir'', Str (gatewayDir (UserProfile env)))]),
             (''preferences'', Obj
               [(''language'', language_arg),
                (''units'', Obj [(''temperature'', temperature_arg)])])])]"

text \<open>
  The promise chain of the handshake,
  \<open>getSetting(..).then(..).then(..).catch(..).then(..)\<close>, and the calls it makes. Its
  callbacks run in later turns of the event loop; they read \<open>msg.data\<close>, the socket and
  the two variables of the closure only, so what they send is a function of how the lookups
  end. The model puts these calls in the log where the request is handled; how the chain
  interleaves with other envelopes is not modelled.
\<close>

definition handshake :: "modules \<Rightarrow> message_data \<Rightarrow> websocket \<Rightarrow> call list" where
  "handshake env msg_data ws_arg =
     sent (snd
       (promise_then
          (\<lambda>_ c. (Resolved Undefined,
                   c\<lparr>sent := sent c @
                       [Ws_send ws_arg
                          (register_response env msg_data (language c) (units_temperature c))]\<rparr>))
          (promise_catch
             (\<lambda>c. (Resolved Undefined, c))
             (promise_then
                (\<lambda>temp c. (Resolved Undefined,
                            if truthy temp then c\<lparr>units_temperature := temp\<rparr> else c))
                (promise_then
                   (\<lambda>lang c. (Settings_getSetting env ''localization.units.temperature'',
                               if truthy lang then c\<lparr>language := lang\<rparr> else c))
                   (Settings_getSetting env ''localization.language'',
                    \<lparr>language = Str ''en-US'',
                     units_temperature = Str ''degree celsius'',
                     sent = []\<rparr>))))))"

text \<open>
  \<open>onMsg\<close>. After the line a verbose server writes, each branch begins by reading
  \<open>msg.data.pluginId\<close> (as the argument of \<open>registerPlugin\<close>, and as the condition of the
  \<open>else if\<close>). There is no test of \<open>msg.data\<close> before and no \<open>try\<close> around: on an envelope
  with no \<open>data\<close> the read throws.
\<close>

definition onMsg ::
  "modules \<Rightarrow> message \<Rightarrow> websocket \<Rightarrow> server \<Rightarrow> (error \<times> server) + server" where
  "onMsg env msg ws_arg s0 =
     (let s = (if verbose s0 then s0\<lparr>console := console s0 @ [msg]\<rparr> else s0)
      in if messageType msg = PLUGIN_REGISTER_REQUEST env then
           (case data msg of
              None \<Rightarrow> Inl (TypeError, s)
            | Some msg_data \<Rightarrow>
                (let (plugin_ref, s1) = registerPlugin (data_pluginId msg_data) s;
                     s2 = assign plugin_ref (\<lambda>p. p\<lparr>ws := Some ws_arg\<rparr>) s1
                 in Inr (s2\<lparr>calls := calls s2 @ handshake env msg_data ws_arg\<rparr>)))
         else
           (case data msg of
              None \<Rightarrow> Inl (TypeError, s)
            | Some msg_data \<Rightarrow>
                if truthy (key_val (data_pluginId msg_data)) then
                  (case getPlugin (data_pluginId msg_data) s of
                     Some plugin_ref \<Rightarrow>
                       Inr (s\<lparr>calls := calls s @ [Plugin_onMsg plugin_ref msg]\<rparr>)
                   | None \<Rightarrow> Inr s)
                else Inr s))"

subsection \<open>Loading a plugin from its manifest\<close>

text \<open>
  The properties of a manifest that \<open>loadPlugin\<close> reads: \<open>name\<close> and \<open>moziot.exec\<close>.
  The reference \<open>registerPlugin\<close> returns points into the store whenever the registry's
  references do (\<open>registry_ok\<close>), so the object \<open>start\<close> is called on is the one just written.
\<close>

record manifest =
  name :: string
  moziot_exec :: string

definition loadPlugin :: "string \<Rightarrow> manifest \<Rightarrow> server \<Rightarrow> server" where
  "loadPlugin pluginPath manifest_arg s =
     (let (plugin_ref, s1) = registerPlugin (Some (name manifest_arg)) s;
          s2 = assign plugin_ref (\<lambda>p. p\<lparr>exec := Some (moziot_exec manifest_arg)\<rparr>) s1;
          s3 = assign plugin_ref (\<lambda>p. p\<lparr>execPath := Some pluginPath\<rparr>) s2
      in s3\<lparr>calls := calls s3 @ [Plugin_start plugin_ref (store s3 ! plugin_ref)]\<rparr>)"

subsection \<open>Reading objects\<close>

text \<open>A property of an object (\<open>undefined\<close> when there is none) and the names of its properties.\<close>

fun obj_get :: "string \<Rightarrow> jsval \<Rightarrow> jsval" where
  "obj_get k (Obj ps) = (case map_of ps k of Some v \<Rightarrow> v | None \<Rightarrow> Undefined)"
| "obj_get k v = Undefined"


text \<open>In a register response: \<open>data.preferences.language\<close> and \<open>data.preferences.units.temperature\<close>.\<close>

definition language_of :: "jsval \<Rightarrow> jsval" where
  "language_of v = obj_get ''language'' (obj_get ''preferences'' (obj_get ''data'' v))"

definition temperature_of :: "jsval \<Rightarrow> jsval" where
  "temperature_of v =
     obj_get ''temperature'' (obj_get ''units'' (obj_get ''preferences'' (obj_get ''data'' v)))"

subsection \<open>A concrete gateway\<close>

text \<open>
  An instance of the imported modules on which the model can be run: the language is
  stored as \<open>fr\<close>, the lookup of the temperature unit is rejected. The numbers \<open>1\<close> and
  \<open>2\<close> stand in for the two message type constants; any two numbers would do, as the
  server only compares \<open>msg.messageType\<close> with the first and copies the second.
\<close>

definition example_modules :: modules where
  "example_modules =
     \<lparr>PLUGIN_REGISTER_REQUEST = 1,
      PLUGIN_REGISTER_RESPONSE = 2,
      Settings_getSetting =
        (\<lambda>k. if k = ''localization.language'' then Resolved (Str ''fr'') else Rejected),
      UserProfile =
        \<lparr>addonsDir = ''/home/node/.mozilla-iot/addons'',
         baseDir = ''/home/node/.mozilla-iot'',
         configDir = ''/home/node/.mozilla-iot/config'',
         dataDir = ''/home/node/.mozilla-iot/data'',
         mediaDir = ''/home/node/.mozilla-iot/media'',
         logDir = ''/home/node/.mozilla-iot/log'',
         gatewayDir = ''/home/node/mozilla-iot/gateway''\<rparr>,
      pkg_version = ''0.12.0''\<rparr>"

text \<open>The same gateway with every lookup of a setting rejected.\<close>

definition failing_modules :: modules where
  "failing_modules = example_modules\<lparr>Settings_getSetting := (\<lambda>k. Rejected)\<rparr>"

text \<open>
  The same gateway with both settings stored as falsy values: the empty string for the
  language, \<open>null\<close> for the temperature unit.
\<close>

definition falsy_modules :: modules where
  "falsy_modules =
     example_modules\<lparr>Settings_getSetting :=
       (\<lambda>k. if k = ''localization.language'' then Resolved (Str '''') else Resolved Null)\<rparr>"

definition example_manifest :: manifest where
  "example_manifest = \<lparr>name = ''abc'', moziot_exec = ''./run.sh''\<rparr>"

text \<open>
  Envelopes: \<open>envelope_data k\<close> is a \<open>data\<close> object with plugin id \<open>k\<close> and nothing else,
  \<open>envelope t k\<close> an envelope of type \<open>t\<close> with that object, and \<open>bare_envelope t\<close> the
  envelope \<open>{messageType: t}\<close>, which has no \<open>data\<close>.
\<close>

definition envelope_data :: "plugin_key \<Rightarrow> message_data" where
  "envelope_data k = \<lparr>data_pluginId = k, data_rest = []\<rparr>"

definition envelope :: "int \<Rightarrow> plugin_key \<Rightarrow> message" where
  "envelope t k = \<lparr>messageType = t, data = Some (envelope_data k)\<rparr>"

definition bare_envelope :: "int \<Rightarrow> message" where
  "bare_envelope t = \<lparr>messageType = t, data = None\<rparr>"

text \<open>
  A new server that has handled one register request, for the plugin id \<open>k\<close>, arriving on
  socket \<open>7\<close>.
\<close>

definition registered :: "plugin_key \<Rightarrow> server" where
  "registered k = after (onMsg example_modules (envelope 1 k) 7 (PluginServer_new False))"

section \<open>Properties\<close>

subsection \<open>Registration\<close>

lemma registerPlugin_known:
  "plugins s p = Some r \<Longrightarrow> registerPlugin p s = (r, s)"
  by (simp add: registerPlugin_def)

lemma registerPlugin_unknown:
  "plugins s p = None \<Longrightarrow>
   registerPlugin p s =
     (length (store s),
      s\<lparr>store := store s @ [Plugin_new p], plugins := (plugins s)(p \<mapsto> length (store s))\<rparr>)"
  by (simp add: registerPlugin_def Let_def)

lemma registerPlugin_binds:
  "plugins (snd (registerPlugin p s)) p = Some (fst (registerPlugin p s))"
  by (cases "plugins s p") (simp_all add: registerPlugin_def Let_def)

lemma registry_ok_new: "registry_ok (PluginServer_new v)"
  by (simp add: registry_ok_def PluginServer_new_def)

lemma registry_ok_registerPlugin:
  "registry_ok s \<Longrightarrow> registry_ok (snd (registerPlugin p s))"
  by (auto simp: registry_ok_def registerPlugin_def Let_def less_Suc_eq
           split: option.splits if_splits)

lemma registerPlugin_in_store:
  "registry_ok s \<Longrightarrow> fst (registerPlugin p s) < length (store (snd (registerPlugin p s)))"
  by (auto simp: registry_ok_def registerPlugin_def Let_def split: option.splits)

lemma assign_fields [simp]:
  "plugins (assign r f s) = plugins s"
  "calls (assign r f s) = calls s"
  "console (assign r f s) = console s"
  "verbose (assign r f s) = verbose s"
  "length (store (assign r f s)) = length (store s)"
  by (simp_all add: assign_def)

lemma assign_store:
  "r < length (store s) \<Longrightarrow> store (assign r f s) = (store s)[r := f (store s ! r)]"
  by (simp add: assign_def)

lemma registry_ok_assign: "registry_ok s \<Longrightarrow> registry_ok (assign r f s)"
  by (simp add: registry_ok_def)

lemma registry_ok_updates [simp]:
  "registry_ok (s\<lparr>calls := cs\<rparr>) = registry_ok s"
  "registry_ok (s\<lparr>console := ms\<rparr>) = registry_ok s"
  by (simp_all add: registry_ok_def)

lemma registry_ok_unregisterPlugin: "registry_ok s \<Longrightarrow> registry_ok (unregisterPlugin p s)"
  by (simp add: registry_ok_def unregisterPlugin_def)

lemma registry_ok_loadPlugin:
  assumes "registry_ok s"
  shows "registry_ok (loadPlugin path m s)"
proof -
  obtain r s1 where reg: "registerPlugin (Some (name m)) s = (r, s1)"
    by (cases "registerPlugin (Some (name m)) s")
  have "registry_ok s1"
    using registry_ok_registerPlugin [OF assms, of "Some (name m)"] reg by simp
  then have "registry_ok (assign r (\<lambda>p. p\<lparr>execPath := Some path\<rparr>)
                (assign r (\<lambda>p. p\<lparr>exec := Some (moziot_exec m)\<rparr>) s1))"
    by (intro registry_ok_assign)
  then show ?thesis
    using reg by (simp add: loadPlugin_def Let_def)
qed

subsection \<open>The concrete gateway\<close>

lemma example_lookups [simp]:
  "Settings_getSetting example_modules ''localization.language'' = Resolved (Str ''fr'')"
  "Settings_getSetting example_modules ''localization.units.temperature'' = Rejected"
  "PLUGIN_REGISTER_REQUEST example_modules = 1"
  "Settings_getSetting failing_modules k = Rejected"
  "PLUGIN_REGISTER_REQUEST failing_modules = 1"
  "Settings_getSetting falsy_modules ''localization.language'' = Resolved (Str '''')"
  "Settings_getSetting falsy_modules ''localization.units.temperature'' = Resolved Null"
  "PLUGIN_REGISTER_REQUEST falsy_modules = 1"
  by (simp_all add: example_modules_def failing_modules_def falsy_modules_def)

lemma envelope_fields [simp]:
  "messageType (envelope t k) = t"
  "data (envelope t k) = Some (envelope_data k)"
  "data_pluginId (envelope_data k) = k"
  "messageType (bare_envelope t) = t"
  "data (bare_envelope t) = None"
  by (simp_all add: envelope_def envelope_data_def bare_envelope_def)

subsection \<open>The handshake\<close>

lemma handshake_cases:
  "handshake env d w =
     (case Settings_getSetting env ''localization.language'' of
        Pending \<Rightarrow> []
      | Rejected \<Rightarrow>
          [Ws_send w (register_response env d (Str ''en-US'') (Str ''degree celsius''))]
      | Resolved lang \<Rightarrow>
          (case Settings_getSetting env ''localization.units.temperature'' of
             Pending \<Rightarrow> []
           | Rejected \<Rightarrow>
               [Ws_send w (register_response env d
                  (if truthy lang then lang else Str ''en-US'') (Str ''degree celsius''))]
           | Resolved temp \<Rightarrow>
               [Ws_send w (register_response env d
                  (if truthy lang then lang else Str ''en-US'')
                  (if truthy temp then temp else Str ''degree celsius''))]))"
  by (simp add: handshake_def split: promise.splits)

lemma language_of_response [simp]: "language_of (register_response env d l t) = l"
  by (simp add: language_of_def register_response_def)

lemma temperature_of_response [simp]: "temperature_of (register_response env d l t) = t"
  by (simp add: temperature_of_def register_response_def)




subsection \<open>Dispatch\<close>

lemma onMsg_no_data:
  "data msg = None \<Longrightarrow>
   onMsg env msg w s =
     Inl (TypeError, if verbose s then s\<lparr>console := console s @ [msg]\<rparr> else s)"
  by (simp add: onMsg_def Let_def)

lemma onMsg_register:
  assumes "messageType msg = PLUGIN_REGISTER_REQUEST env" and "data msg = Some d"
  shows "returns (onMsg env msg w s)"
    and "calls (after (onMsg env msg w s)) = calls s @ handshake env d w"
  using assms
  by (simp_all add: onMsg_def Let_def registerPlugin_def assign_def
      split: option.splits prod.splits)

lemma onMsg_drop:
  assumes "messageType msg \<noteq> PLUGIN_REGISTER_REQUEST env" and "data msg = Some d"
    and "\<not> truthy (key_val (data_pluginId d)) \<or> plugins s (data_pluginId d) = None"
  shows "onMsg env msg w s = Inr (if verbose s then s\<lparr>console := console s @ [msg]\<rparr> else s)"
  using assms by (auto simp: onMsg_def Let_def getPlugin_def)

lemma onMsg_forward:
  assumes "messageType msg \<noteq> PLUGIN_REGISTER_REQUEST env" and "data msg = Some d"
    and "truthy (key_val (data_pluginId d))"
    and "plugins s (data_pluginId d) = Some r"
  shows "onMsg env msg w s =
     Inr ((if verbose s then s\<lparr>console := console s @ [msg]\<rparr> else s)
            \<lparr>calls := calls s @ [Plugin_onMsg r msg]\<rparr>)"
  using assms by (auto simp: onMsg_def Let_def getPlugin_def)

lemma registry_ok_onMsg:
  assumes "registry_ok s"
  shows "registry_ok (after (onMsg env msg w s))"
proof -
  let ?s = "if verbose s then s\<lparr>console := console s @ [msg]\<rparr> else s"
  have log: "registry_ok ?s"
    using assms by simp
  show ?thesis
  proof (cases "data msg")
    case None
    then show ?thesis using log by (simp add: onMsg_no_data)
  next
    case (Some d)
    show ?thesis
    proof (cases "messageType msg = PLUGIN_REGISTER_REQUEST env")
      case True
      obtain r s1 where reg: "registerPlugin (data_pluginId d) ?s = (r, s1)"
        by (cases "registerPlugin (data_pluginId d) ?s")
      have "registry_ok s1"
        using registry_ok_registerPlugin [OF log, of "data_pluginId d"] reg by simp
      then have "registry_ok (assign r (\<lambda>p. p\<lparr>ws := Some w\<rparr>) s1)"
        by (rule registry_ok_assign)
      then show ?thesis
        using True Some reg by (simp add: onMsg_def Let_def)
    next
      case False
      then have "after (onMsg env msg w s) = ?s
          \<or> (\<exists>c. after (onMsg env msg w s) = ?s\<lparr>calls := c\<rparr>)"
        using Some by (auto simp: onMsg_def Let_def split: option.splits)
      then show ?thesis
        using log by (elim disjE exE) (simp_all only: registry_ok_updates)
    qed
  qed
qed

lemma registered_state:
  "registered k =
     \<lparr>verbose = False, plugins = [k \<mapsto> 0],
      store = [\<lparr>pluginId = k, ws = Some 7, exec = None, execPath = None\<rparr>],
      calls = [Ws_send 7 (register_response example_modules (envelope_data k)
                 (Str ''fr'') (Str ''degree celsius''))],
      console = [], ipcSocket_open = True\<rparr>"
  by (simp add: registered_def onMsg_def Let_def registerPlugin_def assign_def
      PluginServer_new_def handshake_cases Plugin_new_def)

lemma registry_ok_registered: "registry_ok (registered k)"
  unfolding registered_def by (intro registry_ok_onMsg registry_ok_new)

section \<open>The claims\<close>



text \<open>
  C2, as stated, fails for the empty plugin id. The id \<open>""\<close> is a string like any other
  for the registry: a register request with \<open>pluginId: ""\<close> creates an entry under it. But
  \<open>onMsg\<close> tests \<open>msg.data.pluginId\<close> for truth before it looks the plugin up, and the empty
  string is falsy: an envelope of another type addressed to \<open>""\<close> is not delivered to the
  registered plugin, and no call is made at all.
\<close>

theorem onMsg_empty_id_not_delivered:
  "messageType (envelope 5 (Some '''')) \<noteq> PLUGIN_REGISTER_REQUEST example_modules
   \<and> data (envelope 5 (Some '''')) = Some (envelope_data (Some ''''))
   \<and> data_pluginId (envelope_data (Some '''')) = Some ''''
   \<and> plugins (registered (Some '''')) (Some '''') = Some 0
   \<and> onMsg example_modules (envelope 5 (Some '''')) 7 (registered (Some ''''))
       = Inr (registered (Some ''''))
   \<and> calls (after (onMsg example_modules (envelope 5 (Some '''')) 7 (registered (Some ''''))))
       = calls (registered (Some ''''))
   \<and> Plugin_onMsg 0 (envelope 5 (Some ''''))
       \<notin> set (calls (after
             (onMsg example_modules (envelope 5 (Some '''')) 7 (registered (Some '''')))))"
proof -
  have "onMsg example_modules (envelope 5 (Some '''')) 7 (registered (Some ''''))
      = Inr (registered (Some ''''))"
    by (simp add: onMsg_def Let_def registered_state)
  then show ?thesis
    by (simp add: registered_state)
qed

text \<open>
  C2, amended. For every envelope whose message type is not the register request and
  whose \<open>data.pluginId\<close> is a non-empty string \<open>p\<close>: if the registry binds \<open>p\<close> to the plugin
  \<open>r\<close>, then \<open>onMsg\<close> returns and makes exactly one call, \<open>onMsg\<close> of \<open>r\<close> with this envelope,
  so no other plugin's handler receives it; the registry and the store are as before.
\<close>

theorem onMsg_routes_to_owner:
  assumes "messageType msg \<noteq> PLUGIN_REGISTER_REQUEST env"
    and "data msg = Some d"
    and "data_pluginId d = Some p" and "p \<noteq> []"
    and "plugins s (Some p) = Some r"
  shows "returns (onMsg env msg w s)
       \<and> calls (after (onMsg env msg w s)) = calls s @ [Plugin_onMsg r msg]
       \<and> (\<forall>r'. r' \<noteq> r \<longrightarrow>
             Plugin_onMsg r' msg
               \<notin> set (drop (length (calls s)) (calls (after (onMsg env msg w s)))))
       \<and> plugins (after (onMsg env msg w s)) = plugins s
       \<and> store (after (onMsg env msg w s)) = store s"
proof -
  have "truthy (key_val (data_pluginId d))" using assms(3,4) by simp
  moreover have "plugins s (data_pluginId d) = Some r" using assms(3,5) by simp
  ultimately show ?thesis using onMsg_forward [OF assms(1,2)] by simp
qed

text \<open>
  C2, amended, on the concrete gateway: an envelope of type \<open>5\<close> for the registered id
  \<open>abc\<close> goes to the plugin at reference \<open>0\<close>.
\<close>

theorem onMsg_routes_to_owner_witness:
  "messageType (envelope 5 (Some ''abc'')) \<noteq> PLUGIN_REGISTER_REQUEST example_modules
   \<and> data (envelope 5 (Some ''abc'')) = Some (envelope_data (Some ''abc''))
   \<and> plugins (registered (Some ''abc'')) (Some ''abc'') = Some 0
   \<and> returns (onMsg example_modules (envelope 5 (Some ''abc'')) 7 (registered (Some ''abc'')))
   \<and> calls (after (onMsg example_modules (envelope 5 (Some ''abc'')) 7
        (registered (Some ''abc''))))
       = calls (registered (Some ''abc'')) @ [Plugin_onMsg 0 (envelope 5 (Some ''abc''))]"
proof -
  have h1: "messageType (envelope 5 (Some ''abc'')) \<noteq> PLUGIN_REGISTER_REQUEST example_modules"
    by simp
  have h2: "data (envelope 5 (Some ''abc'')) = Some (envelope_data (Some ''abc''))" by simp
  have h3: "data_pluginId (envelope_data (Some ''abc'')) = Some ''abc''" by simp
  have h4: "''abc'' \<noteq> []" by simp
  have h5: "plugins (registered (Some ''abc'')) (Some ''abc'') = Some 0"
    by (simp add: registered_state)
  from onMsg_routes_to_owner [OF h1 h2 h3 h4 h5, of 7] h1 h2 h5 show ?thesis by simp
qed

text \<open>
  C3, as stated, fails for an envelope with no \<open>data\<close> object. Its \<open>data.pluginId\<close> is
  absent, and it is not a register request, but \<open>onMsg\<close> does not drop it quietly: the read
  of \<open>msg.data.pluginId\<close> in the condition of the \<open>else if\<close> throws a \<open>TypeError\<close>, which
  \<open>onMsg\<close> does not catch.
\<close>

theorem onMsg_no_data_throws:
  "messageType (bare_envelope 5) \<noteq> PLUGIN_REGISTER_REQUEST example_modules
   \<and> data (bare_envelope 5) = None
   \<and> onMsg example_modules (bare_envelope 5) 7 (registered (Some ''abc''))
       = Inl (TypeError, registered (Some ''abc''))
   \<and> \<not> returns (onMsg example_modules (bare_envelope 5) 7 (registered (Some ''abc'')))"
  by (simp add: onMsg_no_data registered_state)

text \<open>
  C3, amended. For every envelope that is not a register request and whose
  \<open>data.pluginId\<close> is absent (the envelope has no \<open>data\<close>, or its \<open>data\<close> has no
  \<open>pluginId\<close>) or names an id the registry does not bind: \<open>onMsg\<close> leaves the registry,
  every \<open>Plugin\<close> object and the call log unchanged; the server is as before but for the
  line a verbose server writes to the console. If the envelope has a \<open>data\<close> object,
  \<open>onMsg\<close> returns, raising no error.
\<close>

theorem onMsg_unknown_id_dropped:
  assumes "messageType msg \<noteq> PLUGIN_REGISTER_REQUEST env"
    and "data msg = None
       \<or> (\<exists>d. data msg = Some d
              \<and> (data_pluginId d = None \<or> plugins s (data_pluginId d) = None))"
  shows "after (onMsg env msg w s)
           = (if verbose s then s\<lparr>console := console s @ [msg]\<rparr> else s)
       \<and> plugins (after (onMsg env msg w s)) = plugins s
       \<and> store (after (onMsg env msg w s)) = store s
       \<and> calls (after (onMsg env msg w s)) = calls s
       \<and> (data msg \<noteq> None \<longrightarrow> returns (onMsg env msg w s))"
proof (cases "data msg")
  case None
  then show ?thesis by (simp add: onMsg_no_data)
next
  case (Some d)
  with assms(2) have "data_pluginId d = None \<or> plugins s (data_pluginId d) = None"
    by simp
  then have "\<not> truthy (key_val (data_pluginId d)) \<or> plugins s (data_pluginId d) = None"
    by auto
  from onMsg_drop [OF assms(1) Some this] Some show ?thesis by simp
qed

text \<open>
  C3, amended, on the concrete gateway: envelopes for the unknown id \<open>xyz\<close> and with no id
  are dropped, \<open>onMsg\<close> returning the server as it was.
\<close>

theorem onMsg_unknown_id_dropped_witness:
  "messageType (envelope 5 (Some ''xyz'')) \<noteq> PLUGIN_REGISTER_REQUEST example_modules
   \<and> plugins (registered (Some ''abc'')) (Some ''xyz'') = None
   \<and> returns (onMsg example_modules (envelope 5 (Some ''xyz'')) 7 (registered (Some ''abc'')))
   \<and> after (onMsg example_modules (envelope 5 (Some ''xyz'')) 7 (registered (Some ''abc'')))
       = registered (Some ''abc'')
   \<and> returns (onMsg example_modules (envelope 5 None) 7 (registered (Some ''abc'')))
   \<and> after (onMsg example_modules (envelope 5 None) 7 (registered (Some ''abc'')))
       = registered (Some ''abc'')"
proof -
  have h1: "messageType (envelope 5 k) \<noteq> PLUGIN_REGISTER_REQUEST example_modules" for k
    by simp
  have h2: "plugins (registered (Some ''abc'')) (Some ''xyz'') = None"
    by (simp add: registered_state)
  have v: "\<not> verbose (registered (Some ''abc''))" by (simp add: registered_state)
  have a: "data (envelope 5 (Some ''xyz'')) = None
      \<or> (\<exists>d. data (envelope 5 (Some ''xyz'')) = Some d
             \<and> (data_pluginId d = None
                 \<or> plugins (registered (Some ''abc'')) (data_pluginId d) = None))"
    using h2 by simp
  have b: "data (envelope 5 None) = None
      \<or> (\<exists>d. data (envelope 5 None) = Some d
             \<and> (data_pluginId d = None
                 \<or> plugins (registered (Some ''abc'')) (data_pluginId d) = None))"
    by simp
  from onMsg_unknown_id_dropped [OF h1 a, of 7] onMsg_unknown_id_dropped [OF h1 b, of 7] h1 h2 v
  show ?thesis by simp
qed

text \<open>
  C4. A register request is answered also when the lookups of the preferences fail. If
  the promise for \<open>localization.language\<close> is rejected (the temperature unit is then not
  looked up at all), the rejection is caught and exactly one response is sent, with
  \<open>language = "en-US"\<close> and \<open>units.temperature = "degree celsius"\<close>. If the language is
  found and the promise for \<open>localization.units.temperature\<close> is rejected, exactly one
  response is sent as well, with the default temperature unit and the language that was
  found (the default when that value is falsy). In both cases \<open>onMsg\<close> returns.
\<close>

theorem handshake_default_fallback:
  assumes "messageType msg = PLUGIN_REGISTER_REQUEST env"
    and "data msg = Some d"
  shows "returns (onMsg env msg w s)
       \<and> (Settings_getSetting env ''localization.language'' = Rejected \<longrightarrow>
            calls (after (onMsg env msg w s)) =
              calls s @ [Ws_send w (register_response env d (Str ''en-US'') (Str ''degree celsius''))]
          \<and> language_of (register_response env d (Str ''en-US'') (Str ''degree celsius''))
              = Str ''en-US''
          \<and> temperature_of (register_response env d (Str ''en-US'') (Str ''degree celsius''))
              = Str ''degree celsius'')
       \<and> (\<forall>l. Settings_getSetting env ''localization.language'' = Resolved l
              \<and> Settings_getSetting env ''localization.units.temperature'' = Rejected \<longrightarrow>
            (\<exists>v. calls (after (onMsg env msg w s)) = calls s @ [Ws_send w v]
               \<and> language_of v = (if truthy l then l else Str ''en-US'')
               \<and> temperature_of v = Str ''degree celsius''))"
  by (simp add: onMsg_register [OF assms] handshake_cases)

text \<open>
  C4 on a gateway where every lookup is rejected, and on one where only the lookup of the
  temperature unit is.
\<close>

theorem handshake_default_fallback_witness:
  "Settings_getSetting failing_modules ''localization.language'' = Rejected
   \<and> returns (onMsg failing_modules (envelope 1 (Some ''abc'')) 7 (PluginServer_new False))
   \<and> calls (after (onMsg failing_modules (envelope 1 (Some ''abc'')) 7 (PluginServer_new False)))
       = [Ws_send 7 (register_response failing_modules (envelope_data (Some ''abc''))
            (Str ''en-US'') (Str ''degree celsius''))]
   \<and> Settings_getSetting example_modules ''localization.units.temperature'' = Rejected
   \<and> (\<exists>v. calls (after
              (onMsg example_modules (envelope 1 (Some ''abc'')) 7 (PluginServer_new False)))
             = [Ws_send 7 v]
          \<and> language_of v = Str ''fr'' \<and> temperature_of v = Str ''degree celsius'')"
proof -
  have e: "calls (PluginServer_new False) = []" by (simp add: PluginServer_new_def)
  have h1: "messageType (envelope 1 (Some ''abc'')) = PLUGIN_REGISTER_REQUEST failing_modules"
    by simp
  have h2: "messageType (envelope 1 (Some ''abc'')) = PLUGIN_REGISTER_REQUEST example_modules"
    by simp
  have d: "data (envelope 1 (Some ''abc'')) = Some (envelope_data (Some ''abc''))" by simp
  from handshake_default_fallback [OF h1 d, of 7 "PluginServer_new False"]
       handshake_default_fallback [OF h2 d, of 7 "PluginServer_new False"] e
  show ?thesis by simp
qed

text \<open>
  C5. After \<open>unregisterPlugin(p)\<close> the registry does not bind \<open>p\<close>; every other binding
  is as before; the call makes no call of its own (nothing is sent to the Add-on Manager)
  and leaves the store alone; and an envelope that is not a register request and is
  addressed to \<open>p\<close> is then dropped: \<open>onMsg\<close> returns, with no call made and no change of
  registry or store.
\<close>

theorem unregisterPlugin_cleans_up:
  "plugins (unregisterPlugin p s) p = None
   \<and> (\<forall>q. q \<noteq> p \<longrightarrow> plugins (unregisterPlugin p s) q = plugins s q)
   \<and> store (unregisterPlugin p s) = store s
   \<and> calls (unregisterPlugin p s) = calls s
   \<and> (\<forall>msg d. messageType msg \<noteq> PLUGIN_REGISTER_REQUEST env
          \<and> data msg = Some d \<and> data_pluginId d = p \<longrightarrow>
        returns (onMsg env msg w (unregisterPlugin p s))
      \<and> calls (after (onMsg env msg w (unregisterPlugin p s))) = calls s
      \<and> plugins (after (onMsg env msg w (unregisterPlugin p s)))
          = plugins (unregisterPlugin p s)
      \<and> store (after (onMsg env msg w (unregisterPlugin p s))) = store s)"
proof -
  have drop: "onMsg env msg w (unregisterPlugin p s) =
      Inr (if verbose (unregisterPlugin p s)
           then (unregisterPlugin p s)\<lparr>console := console (unregisterPlugin p s) @ [msg]\<rparr>
           else unregisterPlugin p s)"
    if "messageType msg \<noteq> PLUGIN_REGISTER_REQUEST env" "data msg = Some d"
       "data_pluginId d = p" for msg d
    by (rule onMsg_drop [OF that(1,2)]) (use that in \<open>simp add: unregisterPlugin_def\<close>)
  show ?thesis
    by (auto simp: drop) (simp_all add: unregisterPlugin_def)
qed

text \<open>
  C5 on the concrete gateway: \<open>abc\<close> is registered, then unregistered, and an envelope for
  it adds no call.
\<close>

theorem unregisterPlugin_cleans_up_witness:
  "plugins (registered (Some ''abc'')) (Some ''abc'') = Some 0
   \<and> plugins (unregisterPlugin (Some ''abc'') (registered (Some ''abc''))) (Some ''abc'') = None
   \<and> messageType (envelope 5 (Some ''abc'')) \<noteq> PLUGIN_REGISTER_REQUEST example_modules
   \<and> returns (onMsg example_modules (envelope 5 (Some ''abc'')) 7
        (unregisterPlugin (Some ''abc'') (registered (Some ''abc''))))
   \<and> calls (after (onMsg example_modules (envelope 5 (Some ''abc'')) 7
        (unregisterPlugin (Some ''abc'') (registered (Some ''abc'')))))
       = calls (registered (Some ''abc''))"
proof -
  have h1: "messageType (envelope 5 (Some ''abc'')) \<noteq> PLUGIN_REGISTER_REQUEST example_modules"
    by simp
  have h2: "data (envelope 5 (Some ''abc'')) = Some (envelope_data (Some ''abc''))" by simp
  have h3: "data_pluginId (envelope_data (Some ''abc'')) = Some ''abc''" by simp
  have h4: "plugins (registered (Some ''abc'')) (Some ''abc'') = Some 0"
    by (simp add: registered_state)
  from unregisterPlugin_cleans_up [of "Some ''abc''" "registered (Some ''abc'')" example_modules 7]
       h1 h2 h3 h4
  show ?thesis by blast
qed



text \<open>
  C7. Each of \<open>addAdapter\<close>, \<open>addNotifier\<close> and \<open>addAPIHandler\<close> calls the method of the
  same name of the Add-on Manager with its argument, once, and does nothing else: the
  server is as before but for that one call at the end of the log; in particular the
  registry and the store are unchanged.
\<close>

theorem manager_forwarding:
  "addAdapter x s = s\<lparr>calls := calls s @ [Manager_addAdapter x]\<rparr>
   \<and> addNotifier x s = s\<lparr>calls := calls s @ [Manager_addNotifier x]\<rparr>
   \<and> addAPIHandler x s = s\<lparr>calls := calls s @ [Manager_addAPIHandler x]\<rparr>
   \<and> plugins (addAdapter x s) = plugins s \<and> store (addAdapter x s) = store s
   \<and> plugins (addNotifier x s) = plugins s \<and> store (addNotifier x s) = store s
   \<and> plugins (addAPIHandler x s) = plugins s \<and> store (addAPIHandler x s) = store s
   \<and> count_list (calls (addAdapter x s)) (Manager_addAdapter x)
       = Suc (count_list (calls s) (Manager_addAdapter x))
   \<and> count_list (calls (addNotifier x s)) (Manager_addNotifier x)
       = Suc (count_list (calls s) (Manager_addNotifier x))
   \<and> count_list (calls (addAPIHandler x s)) (Manager_addAPIHandler x)
       = Suc (count_list (calls s) (Manager_addAPIHandler x))"
  by (simp add: addAdapter_def addNotifier_def addAPIHandler_def)

text \<open>
  C7 on concrete servers.
\<close>

theorem manager_forwarding_witness:
  "calls (addAdapter 3 (PluginServer_new False)) = [Manager_addAdapter 3]
   \<and> calls (addNotifier 4 (addAdapter 3 (PluginServer_new False)))
       = [Manager_addAdapter 3, Manager_addNotifier 4]
   \<and> calls (addAPIHandler 5 (PluginServer_new False)) = [Manager_addAPIHandler 5]
   \<and> plugins (addAdapter 3 (registered (Some ''abc''))) (Some ''abc'') = Some 0"
  using manager_forwarding [of 3 "PluginServer_new False"]
        manager_forwarding [of 4 "addAdapter 3 (PluginServer_new False)"]
        manager_forwarding [of 5 "PluginServer_new False"]
        manager_forwarding [of 3 "registered (Some ''abc'')"]
  by (simp add: PluginServer_new_def registered_state)

text \<open>
  C8. \<open>loadPlugin(path, manifest)\<close> leaves the registry binding \<open>manifest.name\<close> to a
  plugin \<open>r\<close> of the store whose \<open>exec\<close> is \<open>manifest.moziot.exec\<close> and whose \<open>execPath\<close> is
  \<open>path\<close>; its one call is \<open>start\<close> of \<open>r\<close>, made when both fields are set; no other
  binding changes. If the id was registered, \<open>r\<close> is the plugin it was bound to, and the
  registry and the number of objects are as before; if not, one object is created.
\<close>

theorem loadPlugin_registers_and_starts:
  assumes "registry_ok s"
  shows "\<exists>r. plugins (loadPlugin path m s) (Some (name m)) = Some r
           \<and> r < length (store (loadPlugin path m s))
           \<and> exec (store (loadPlugin path m s) ! r) = Some (moziot_exec m)
           \<and> execPath (store (loadPlugin path m s) ! r) = Some path
           \<and> calls (loadPlugin path m s) =
               calls s @ [Plugin_start r (store (loadPlugin path m s) ! r)]
           \<and> (\<forall>k. k \<noteq> Some (name m) \<longrightarrow> plugins (loadPlugin path m s) k = plugins s k)
           \<and> (\<forall>r0. plugins s (Some (name m)) = Some r0 \<longrightarrow>
                r = r0 \<and> plugins (loadPlugin path m s) = plugins s
              \<and> length (store (loadPlugin path m s)) = length (store s))
           \<and> (plugins s (Some (name m)) = None \<longrightarrow>
                r = length (store s)
              \<and> length (store (loadPlugin path m s)) = Suc (length (store s)))"
proof -
  obtain r s1 where reg: "registerPlugin (Some (name m)) s = (r, s1)"
    by (cases "registerPlugin (Some (name m)) s")
  have r: "r < length (store s1)"
    using registerPlugin_in_store [OF assms, of "Some (name m)"] reg by simp
  have bound: "plugins s1 (Some (name m)) = Some r"
    using registerPlugin_binds [of "Some (name m)" s] reg by simp
  have others: "k \<noteq> Some (name m) \<Longrightarrow> plugins s1 k = plugins s k" for k
    using reg by (auto simp: registerPlugin_def Let_def split: option.splits)
  have calls1: "calls s1 = calls s"
    using reg by (auto simp: registerPlugin_def Let_def split: option.splits)
  have known: "plugins s (Some (name m)) = Some r0 \<Longrightarrow> r = r0 \<and> s1 = s" for r0
    using reg by (simp add: registerPlugin_known)
  have unknown: "plugins s (Some (name m)) = None \<Longrightarrow>
      r = length (store s) \<and> length (store s1) = Suc (length (store s))"
    using reg by (auto simp: registerPlugin_unknown)
  let ?s3 = "assign r (\<lambda>p. p\<lparr>execPath := Some path\<rparr>)
               (assign r (\<lambda>p. p\<lparr>exec := Some (moziot_exec m)\<rparr>) s1)"
  have load: "loadPlugin path m s = ?s3\<lparr>calls := calls ?s3 @ [Plugin_start r (store ?s3 ! r)]\<rparr>"
    using reg by (simp add: loadPlugin_def Let_def)
  have st: "store ?s3 ! r = (store s1 ! r)\<lparr>exec := Some (moziot_exec m), execPath := Some path\<rparr>"
    using r by (simp add: assign_store)
  show ?thesis
  proof (rule exI [of _ r], intro conjI allI impI)
    show "plugins (loadPlugin path m s) (Some (name m)) = Some r"
      by (simp add: load bound)
    show "r < length (store (loadPlugin path m s))" by (simp add: load r)
    show "exec (store (loadPlugin path m s) ! r) = Some (moziot_exec m)"
      by (simp add: load st)
    show "execPath (store (loadPlugin path m s) ! r) = Some path"
      by (simp add: load st)
    show "calls (loadPlugin path m s) = calls s @ [Plugin_start r (store (loadPlugin path m s) ! r)]"
      by (simp add: load calls1)
    show "plugins (loadPlugin path m s) k = plugins s k" if "k \<noteq> Some (name m)" for k
      by (simp add: load others [OF that])
    show "r = r0" if "plugins s (Some (name m)) = Some r0" for r0
      using known [OF that] by simp
    show "plugins (loadPlugin path m s) = plugins s" if "plugins s (Some (name m)) = Some r0" for r0
      using known [OF that] by (simp add: load)
    show "length (store (loadPlugin path m s)) = length (store s)"
      if "plugins s (Some (name m)) = Some r0" for r0
      using known [OF that] by (simp add: load)
    show "r = length (store s)" if "plugins s (Some (name m)) = None"
      using unknown [OF that] by simp
    show "length (store (loadPlugin path m s)) = Suc (length (store s))"
      if "plugins s (Some (name m)) = None"
      using unknown [OF that] by (simp add: load)
  qed
qed

text \<open>
  C8 on the concrete gateway: loading \<open>abc\<close>, which has registered itself, reuses the
  plugin at reference \<open>0\<close>.
\<close>

theorem loadPlugin_registers_and_starts_witness:
  "registry_ok (registered (Some ''abc''))
   \<and> plugins (loadPlugin ''/addons/abc'' example_manifest (registered (Some ''abc'')))
        (Some ''abc'') = Some 0
   \<and> length (store (loadPlugin ''/addons/abc'' example_manifest (registered (Some ''abc'')))) = 1
   \<and> calls (loadPlugin ''/addons/abc'' example_manifest (registered (Some ''abc''))) =
       calls (registered (Some ''abc'')) @
       [Plugin_start 0 \<lparr>pluginId = Some ''abc'', ws = Some 7, exec = Some ''./run.sh'',
                         execPath = Some ''/addons/abc''\<rparr>]"
proof -
  have h: "registry_ok (registered (Some ''abc''))" by (rule registry_ok_registered)
  have ev: "loadPlugin ''/addons/abc'' example_manifest (registered (Some ''abc'')) =
     (registered (Some ''abc''))
       \<lparr>store := [\<lparr>pluginId = Some ''abc'', ws = Some 7, exec = Some ''./run.sh'',
                    execPath = Some ''/addons/abc''\<rparr>],
        calls := calls (registered (Some ''abc'')) @
          [Plugin_start 0 \<lparr>pluginId = Some ''abc'', ws = Some 7, exec = Some ''./run.sh'',
                            execPath = Some ''/addons/abc''\<rparr>]\<rparr>"
    by (simp add: registered_state loadPlugin_def example_manifest_def registerPlugin_def
        assign_def Let_def)
  from loadPlugin_registers_and_starts [OF h, of "''/addons/abc''" example_manifest] h ev
  show ?thesis by (simp add: registered_state)
qed

text \<open>
  C9. A register request for an id the registry already binds, to \<open>r\<close>, returns, keeps the
  registry and the number of objects (no \<open>Plugin\<close> is constructed) and writes the socket
  the request arrived on to the field \<open>ws\<close> of \<open>r\<close>; nothing else in the store changes.
\<close>

theorem onMsg_reregister_rebinds_ws:
  assumes "registry_ok s"
    and "messageType msg = PLUGIN_REGISTER_REQUEST env"
    and "data msg = Some d"
    and "plugins s (data_pluginId d) = Some r"
  shows "returns (onMsg env msg w s)
       \<and> plugins (after (onMsg env msg w s)) = plugins s
       \<and> length (store (after (onMsg env msg w s))) = length (store s)
       \<and> store (after (onMsg env msg w s)) = (store s)[r := (store s ! r)\<lparr>ws := Some w\<rparr>]
       \<and> ws (store (after (onMsg env msg w s)) ! r) = Some w
       \<and> (\<forall>r'. r' \<noteq> r \<longrightarrow> store (after (onMsg env msg w s)) ! r' = store s ! r')"
proof -
  from assms(1,4) have r: "r < length (store s)" by (simp add: registry_ok_def)
  let ?s = "if verbose s then s\<lparr>console := console s @ [msg]\<rparr> else s"
  have reg: "registerPlugin (data_pluginId d) ?s = (r, ?s)"
    by (rule registerPlugin_known) (simp add: assms(4))
  have "onMsg env msg w s =
      Inr ((assign r (\<lambda>p. p\<lparr>ws := Some w\<rparr>) ?s)
        \<lparr>calls := calls (assign r (\<lambda>p. p\<lparr>ws := Some w\<rparr>) ?s) @ handshake env d w\<rparr>)"
    using assms(2,3) reg by (simp add: onMsg_def Let_def)
  moreover have "store (assign r (\<lambda>p. p\<lparr>ws := Some w\<rparr>) ?s) = (store s)[r := (store s ! r)\<lparr>ws := Some w\<rparr>]"
    using r by (simp add: assign_store)
  ultimately show ?thesis using r by simp
qed

text \<open>
  C9 on the concrete gateway: \<open>abc\<close> registered on socket \<open>7\<close> registers again on socket
  \<open>9\<close>.
\<close>

theorem onMsg_reregister_rebinds_ws_witness:
  "registry_ok (registered (Some ''abc''))
   \<and> messageType (envelope 1 (Some ''abc'')) = PLUGIN_REGISTER_REQUEST example_modules
   \<and> plugins (registered (Some ''abc'')) (Some ''abc'') = Some 0
   \<and> ws (store (registered (Some ''abc'')) ! 0) = Some 7
   \<and> returns (onMsg example_modules (envelope 1 (Some ''abc'')) 9 (registered (Some ''abc'')))
   \<and> ws (store (after
        (onMsg example_modules (envelope 1 (Some ''abc'')) 9 (registered (Some ''abc'')))) ! 0)
       = Some 9
   \<and> length (store (after
        (onMsg example_modules (envelope 1 (Some ''abc'')) 9 (registered (Some ''abc'')))))
       = 1"
proof -
  have h1: "registry_ok (registered (Some ''abc''))" by (rule registry_ok_registered)
  have h2: "messageType (envelope 1 (Some ''abc'')) = PLUGIN_REGISTER_REQUEST example_modules"
    by simp
  have h3: "data (envelope 1 (Some ''abc'')) = Some (envelope_data (Some ''abc''))" by simp
  have h4: "plugins (registered (Some ''abc'')) (data_pluginId (envelope_data (Some ''abc'')))
      = Some 0"
    by (simp add: registered_state)
  have l: "length (store (registered (Some ''abc''))) = 1"
    "ws (store (registered (Some ''abc'')) ! 0) = Some 7"
    by (simp_all add: registered_state)
  from onMsg_reregister_rebinds_ws [OF h1 h2 h3 h4, of 9] h1 h2 h4 l
  show ?thesis by simp
qed

text \<open>
  C10. In a register response, \<open>language\<close> differs from \<open>"en-US"\<close> only when the lookup of
  \<open>localization.language\<close> resolved with a truthy value (which is then the language sent),
  and \<open>units.temperature\<close> differs from \<open>"degree celsius"\<close> only when the lookup of
  \<open>localization.units.temperature\<close> resolved with a truthy value. A lookup that resolves
  with a falsy value leaves the default in place.
\<close>

theorem handshake_falsy_keeps_default:
  assumes "messageType msg = PLUGIN_REGISTER_REQUEST env"
    and "data msg = Some d"
  shows "returns (onMsg env msg w s)
       \<and> calls (after (onMsg env msg w s)) = calls s @ handshake env d w
       \<and> (\<forall>c \<in> set (handshake env d w). \<exists>v. c = Ws_send w v
           \<and> (language_of v \<noteq> Str ''en-US'' \<longrightarrow>
                (\<exists>l. Settings_getSetting env ''localization.language'' = Resolved l
                    \<and> truthy l \<and> language_of v = l))
           \<and> (temperature_of v \<noteq> Str ''degree celsius'' \<longrightarrow>
                (\<exists>t. Settings_getSetting env ''localization.units.temperature'' = Resolved t
                    \<and> truthy t \<and> temperature_of v = t))
           \<and> (\<forall>l. Settings_getSetting env ''localization.language'' = Resolved l \<and> \<not> truthy l
                  \<longrightarrow> language_of v = Str ''en-US'')
           \<and> (\<forall>t. Settings_getSetting env ''localization.units.temperature'' = Resolved t
                  \<and> \<not> truthy t \<longrightarrow> temperature_of v = Str ''degree celsius''))"
  by (auto simp: onMsg_register [OF assms] handshake_cases split: promise.splits)

text \<open>
  C10 on a gateway whose settings hold the empty string and \<open>null\<close>.
\<close>

theorem handshake_falsy_keeps_default_witness:
  "messageType (envelope 1 (Some ''abc'')) = PLUGIN_REGISTER_REQUEST falsy_modules
   \<and> Settings_getSetting falsy_modules ''localization.language'' = Resolved (Str '''')
   \<and> Settings_getSetting falsy_modules ''localization.units.temperature'' = Resolved Null
   \<and> handshake falsy_modules (envelope_data (Some ''abc'')) 7 =
       [Ws_send 7 (register_response falsy_modules (envelope_data (Some ''abc''))
          (Str ''en-US'') (Str ''degree celsius''))]
   \<and> language_of (register_response falsy_modules (envelope_data (Some ''abc''))
          (Str ''en-US'') (Str ''degree celsius'')) = Str ''en-US''
   \<and> temperature_of (register_response falsy_modules (envelope_data (Some ''abc''))
          (Str ''en-US'') (Str ''degree celsius'')) = Str ''degree celsius''"
proof -
  have h: "messageType (envelope 1 (Some ''abc'')) = PLUGIN_REGISTER_REQUEST falsy_modules"
    by simp
  have d: "data (envelope 1 (Some ''abc'')) = Some (envelope_data (Some ''abc''))" by simp
  have hs: "handshake falsy_modules (envelope_data (Some ''abc'')) 7 =
       [Ws_send 7 (register_response falsy_modules (envelope_data (Some ''abc''))
          (Str ''en-US'') (Str ''degree celsius''))]"
    by (simp add: handshake_cases)
  from handshake_falsy_keeps_default [OF h d, of 7 "PluginServer_new False"] h hs
  show ?thesis by simp
qed

end
